theory Spec2Isabelle
  imports Complex_Main "HOL-Library.Word"
begin

section \<open>Snow-dome particle physics: the compute kernel \<open>updateSnowflakesFn\<close>\<close>

text \<open>
  The kernel of \<open>src/snowdome/shaders/physics.ts\<close> and the noise function of
  \<open>src/snowdome/shaders/common.ts\<close>, embedded as HOL functions.

  Number model. The shader computes in \<open>f32\<close> (binary32); here every \<open>f32\<close> is a
  \<open>real\<close>, so the theorems speak of the arithmetic the shader approximates: their
  equalities and bounds hold on the shader up to rounding, and they say nothing on
  overflow to infinity or on NaN. Two consequences are kept in view. Where a statement
  would be contradicted by an overflow in the shader, it is restricted to inputs in a
  working range (\<open>paramsInRange\<close>, \<open>flakeInRange\<close>) in which no intermediate value of the
  kernel overflows. And the value of \<open>noise3DFn\<close> here is not the value the shader
  computes, since the hash amplifies rounding; no statement below depends on that
  value except the evaluation in the noise section, whose size makes rounding
  irrelevant. The invocation index and \<open>snowflakeCount\<close> are \<open>u32\<close>, modelled as
  \<open>32 word\<close>. The conversion \<open>d.i32\<close> of an \<open>f32\<close> keeps its 32-bit range (see \<open>i32\<close> below).
  \<open>sqrt\<close>, \<open>sin\<close>, \<open>cos\<close> and \<open>abs\<close> of \<open>typegpu/std\<close> are the real functions; HOL's \<open>sqrt\<close>
  of a negative number and division by zero are total where the shader yields NaN, so
  no theorem below rests on either.
\<close>

subsection \<open>Data\<close>

record vec3f =
  vec_x :: real
  vec_y :: real
  vec_z :: real

text \<open>\<open>Snowflake\<close> of \<open>snowflake.ts\<close>; the field \<open>size\<close> is named \<open>size_f\<close> here.\<close>

record Snowflake =
  position :: vec3f
  velocity :: vec3f
  size_f :: real
  phase :: real
  alpha :: real
  rotation :: real

record SimParams =
  time :: real
  deltaTime :: real
  domeRadius :: real
  domeCenterY :: real
  floorY :: real
  gravity :: real
  dragCoeff :: real
  turbulence :: real
  restitution :: real
  shakeAccelX :: real
  shakeAccelY :: real
  shakeAccelZ :: real
  snowflakeCount :: "32 word"

text \<open>The mutable locals \<open>posX .. velZ\<close> of the kernel body.\<close>

record kernelVars =
  posX :: real
  posY :: real
  posZ :: real
  velX :: real
  velY :: real
  velZ :: real

subsection \<open>Conversions\<close>

text \<open>
  \<open>d.i32(v)\<close> of an \<open>f32\<close>: the WGSL value conversion, which rounds toward zero and,
  for a value outside the 32-bit range, yields the nearest \<open>i32\<close> that is also an \<open>f32\<close>
  value: 2147483520 from \<open>2^31\<close> on and \<open>- 2^31\<close> below.
\<close>

definition i32 :: "real \<Rightarrow> int" where
  "i32 v = (if 2147483648 \<le> v then 2147483520
            else if v \<le> - 2147483648 then - 2147483648
            else if 0 \<le> v then \<lfloor>v\<rfloor> else \<lceil>v\<rceil>)"

text \<open>\<open>d.f32(d.i32(v))\<close>, the idiom the shaders use to cut off a fraction.\<close>

definition f32_i32 :: "real \<Rightarrow> real" where
  "f32_i32 v = real_of_int (i32 v)"

text \<open>\<open>d.f32(idx)\<close> of the \<open>u32\<close> invocation index.\<close>

definition f32_u32 :: "32 word \<Rightarrow> real" where
  "f32_u32 w = real (unat w)"

subsection \<open>\<open>noise3DFn\<close> (common.ts)\<close>

definition noise3DFn :: "vec3f \<Rightarrow> real" where
  "noise3DFn p =
    (let px = vec_x p * 127.1 + vec_y p * 311.7 + vec_z p * 74.7;
         py = vec_x p * 269.5 + vec_y p * 183.3 + vec_z p * 246.1;
         pz = vec_x p * 113.5 + vec_y p * 271.9 + vec_z p * 124.6;
         twoPi = 6.2832;
         sinPx = px - f32_i32 (px / twoPi) * twoPi;
         sinPy = py - f32_i32 (py / twoPi) * twoPi;
         sinPz = pz - f32_i32 (pz / twoPi) * twoPi;
         h1 = sinPx * sinPx * 43758.5453;
         h2 = sinPy * sinPy * 43758.5453;
         h3 = sinPz * sinPz * 43758.5453;
         frac1 = h1 - f32_i32 h1;
         frac2 = h2 - f32_i32 h2;
         frac3 = h3 - f32_i32 h3
     in (frac1 + frac2 + frac3) / 1.5 - 1.0)"

subsection \<open>The stages of the kernel body (physics.ts)\<close>

text \<open>Drag, lines 148-158: \<open>(dragX, dragY, dragZ)\<close>.\<close>

definition dragAccel :: "SimParams \<Rightarrow> kernelVars \<Rightarrow> vec3f" where
  "dragAccel params s =
    (let speed = sqrt (velX s * velX s + velY s * velY s + velZ s * velZ s)
     in if speed > 0.001
        then (let dragCoeff' = dragCoeff params * speed
              in \<lparr>vec_x = (0 - velX s) * dragCoeff',
                  vec_y = (0 - velY s) * dragCoeff',
                  vec_z = (0 - velZ s) * dragCoeff'\<rparr>)
        else \<lparr>vec_x = 0, vec_y = 0, vec_z = 0\<rparr>)"

text \<open>Turbulence, lines 165-175: \<open>(turbX, turbY, turbZ)\<close>.\<close>

definition turbAccel :: "SimParams \<Rightarrow> real \<Rightarrow> kernelVars \<Rightarrow> vec3f" where
  "turbAccel params ph s =
    (let noiseScale = 2.0;
         noiseInput = \<lparr>vec_x = posX s * noiseScale + time params * 0.5,
                       vec_y = posY s * noiseScale + time params * 0.3,
                       vec_z = posZ s * noiseScale + time params * 0.4\<rparr>;
         noiseVal = noise3DFn noiseInput
     in \<lparr>vec_x = sin (noiseVal * 6.28 + time params + ph) * turbulence params,
         vec_y = cos (noiseVal * 6.28 * 0.7 + time params * 0.8) * turbulence params * 0.3,
         vec_z = sin (noiseVal * 6.28 * 1.3 + time params * 0.6 + ph) * turbulence params\<rparr>)"

text \<open>Forces and integration, lines 143-187.\<close>

definition integrate :: "SimParams \<Rightarrow> real \<Rightarrow> kernelVars \<Rightarrow> kernelVars" where
  "integrate params ph s =
    (let gravityForce = 0 - gravity params;
         drag = dragAccel params s;
         shakeX = shakeAccelX params;
         shakeY = shakeAccelY params;
         shakeZ = shakeAccelZ params;
         turb = turbAccel params ph s;
         dt = deltaTime params;
         velX' = velX s + (vec_x drag + shakeX + vec_x turb) * dt;
         velY' = velY s + (gravityForce + vec_y drag + shakeY + vec_y turb) * dt;
         velZ' = velZ s + (vec_z drag + shakeZ + vec_z turb) * dt;
         posX' = posX s + velX' * dt;
         posY' = posY s + velY' * dt;
         posZ' = posZ s + velZ' * dt
     in \<lparr>posX = posX', posY = posY', posZ = posZ',
         velX = velX', velY = velY', velZ = velZ'\<rparr>)"

text \<open>Dome boundary, lines 189-215.\<close>

definition domeBoundary :: "SimParams \<Rightarrow> kernelVars \<Rightarrow> kernelVars" where
  "domeBoundary params s =
    (let relY = posY s - domeCenterY params;
         dist = sqrt (posX s * posX s + relY * relY + posZ s * posZ s);
         maxRadius = domeRadius params * 0.95
     in if dist > maxRadius
        then (let nx = posX s / dist;
                  ny = relY / dist;
                  nz = posZ s / dist;
                  s1 = s\<lparr>posX := nx * maxRadius,
                         posY := ny * maxRadius + domeCenterY params,
                         posZ := nz * maxRadius\<rparr>;
                  velDotN = velX s * nx + velY s * ny + velZ s * nz
              in if velDotN > 0.0
                 then s1\<lparr>velX := (velX s - 2.0 * velDotN * nx) * restitution params,
                         velY := (velY s - 2.0 * velDotN * ny) * restitution params,
                         velZ := (velZ s - 2.0 * velDotN * nz) * restitution params\<rparr>
                 else s1)
        else s)"

text \<open>Floor, lines 217-231: the new locals and the flag \<open>onFloor\<close>.\<close>

definition floorBoundary :: "SimParams \<Rightarrow> kernelVars \<Rightarrow> kernelVars \<times> real" where
  "floorBoundary params s =
    (if posY s < floorY params
     then (let s1 = s\<lparr>posY := floorY params\<rparr>;
               s2 = (if velY s1 < 0.0
                     then s1\<lparr>velY := \<bar>velY s1\<bar> * restitution params * 0.5\<rparr>
                     else s1)
           in (s2\<lparr>velX := velX s2 * 0.9, velZ := velZ s2 * 0.9\<rparr>, 1))
     else (s, 0))"

text \<open>The respawn position and velocity, lines 241-273.\<close>

definition respawnState :: "SimParams \<Rightarrow> 32 word \<Rightarrow> kernelVars" where
  "respawnState params idx =
    (let seed1 = f32_u32 idx * 0.1234 + time params * 0.567;
         seed2 = f32_u32 idx * 0.5678 + time params * 0.123;
         seed3 = f32_u32 idx * 0.9012 + time params * 0.345;
         twoPi = 6.2832;
         theta = (seed1 - f32_i32 seed1) * twoPi;
         randR = seed2 - f32_i32 seed2;
         sqrtR = sqrt randR;
         randH = seed3 - f32_i32 seed3;
         heightRatio = 0.5 + randH * 0.35;
         spawnY = domeCenterY params + domeRadius params * heightRatio;
         relativeY = spawnY - domeCenterY params;
         maxRadiusAtHeight =
           sqrt (domeRadius params * domeRadius params * 0.9 - relativeY * relativeY);
         safeRadius = maxRadiusAtHeight * 0.85;
         r = sqrtR * safeRadius
     in \<lparr>posX = sin theta * r, posY = spawnY, posZ = cos theta * r,
         velX = 0, velY = 0 - 0.01, velZ = 0\<rparr>)"

text \<open>\<open>respawnRand\<close>, lines 237-238.\<close>

definition respawnRand :: "SimParams \<Rightarrow> 32 word \<Rightarrow> real" where
  "respawnRand params idx =
    (let respawnChance = f32_u32 idx * 0.0001 + time params * 10.0
     in respawnChance - f32_i32 respawnChance)"

text \<open>Respawn of a settled snowflake, lines 233-275.\<close>

definition respawn :: "SimParams \<Rightarrow> 32 word \<Rightarrow> kernelVars \<times> real \<Rightarrow> kernelVars" where
  "respawn params idx sf =
    (let s = fst sf;
         onFloor = snd sf;
         totalSpeed = sqrt (velX s * velX s + velY s * velY s + velZ s * velZ s)
     in if onFloor > 0.5 \<and> totalSpeed < 0.02
        then (if respawnRand params idx < 0.05 then respawnState params idx else s)
        else s)"

text \<open>
  The body after the bounds check, lines 133-279: read the locals from the snowflake,
  run the stages, write \<open>position\<close> and \<open>velocity\<close> back.
\<close>

definition loadVars :: "Snowflake \<Rightarrow> kernelVars" where
  "loadVars snowflake =
    \<lparr>posX = vec_x (position snowflake), posY = vec_y (position snowflake),
     posZ = vec_z (position snowflake),
     velX = vec_x (velocity snowflake), velY = vec_y (velocity snowflake),
     velZ = vec_z (velocity snowflake)\<rparr>"

definition stepVars :: "SimParams \<Rightarrow> 32 word \<Rightarrow> real \<Rightarrow> kernelVars \<Rightarrow> kernelVars" where
  "stepVars params idx ph s =
    respawn params idx (floorBoundary params (domeBoundary params (integrate params ph s)))"

definition stepSnowflake :: "SimParams \<Rightarrow> 32 word \<Rightarrow> Snowflake \<Rightarrow> Snowflake" where
  "stepSnowflake params idx snowflake =
    (let s = stepVars params idx (phase snowflake) (loadVars snowflake)
     in snowflake\<lparr>position := \<lparr>vec_x = posX s, vec_y = posY s, vec_z = posZ s\<rparr>,
                  velocity := \<lparr>vec_x = velX s, vec_y = velY s, vec_z = velZ s\<rparr>\<rparr>)"

text \<open>
  One invocation with global id \<open>idx\<close> on the storage array, lines 125-131 and 277-279.
  The array has \<open>CONFIG.SNOWFLAKE_COUNT\<close> elements and the driver passes the same constant
  as \<open>snowflakeCount\<close>; an index that passes the bounds check but lies beyond the array
  is left without effect here.
\<close>

definition updateSnowflakesFn :: "SimParams \<Rightarrow> 32 word \<Rightarrow> Snowflake list \<Rightarrow> Snowflake list" where
  "updateSnowflakesFn params idx snowflakes =
    (if idx \<ge> snowflakeCount params then snowflakes
     else if unat idx < length snowflakes
     then snowflakes[unat idx := stepSnowflake params idx (snowflakes ! unat idx)]
     else snowflakes)"

text \<open>
  One dispatch (index.ts, \<open>dispatchWorkgroups\<close>): every invocation id of the grid runs
  once, in an order the GPU chooses; \<open>gids\<close> is that order.
\<close>

definition dispatch :: "SimParams \<Rightarrow> 32 word list \<Rightarrow> Snowflake list \<Rightarrow> Snowflake list" where
  "dispatch params gids snowflakes = foldl (\<lambda>a idx. updateSnowflakesFn params idx a) snowflakes gids"


subsection \<open>Vocabulary of the statements\<close>

text \<open>Vectors of the locals, and the usual operations on \<open>vec3f\<close>.\<close>

definition velOf :: "kernelVars \<Rightarrow> vec3f" where
  "velOf s = \<lparr>vec_x = velX s, vec_y = velY s, vec_z = velZ s\<rparr>"

definition posOf :: "kernelVars \<Rightarrow> vec3f" where
  "posOf s = \<lparr>vec_x = posX s, vec_y = posY s, vec_z = posZ s\<rparr>"

definition length3 :: "vec3f \<Rightarrow> real" where
  "length3 v = sqrt (vec_x v * vec_x v + vec_y v * vec_y v + vec_z v * vec_z v)"


definition scale3 :: "real \<Rightarrow> vec3f \<Rightarrow> vec3f" where
  "scale3 k v = \<lparr>vec_x = k * vec_x v, vec_y = k * vec_y v, vec_z = k * vec_z v\<rparr>"

definition add3 :: "vec3f \<Rightarrow> vec3f \<Rightarrow> vec3f" where
  "add3 a b = \<lparr>vec_x = vec_x a + vec_x b, vec_y = vec_y a + vec_y b, vec_z = vec_z a + vec_z b\<rparr>"

definition sub3 :: "vec3f \<Rightarrow> vec3f \<Rightarrow> vec3f" where
  "sub3 a b = \<lparr>vec_x = vec_x a - vec_x b, vec_y = vec_y a - vec_y b, vec_z = vec_z a - vec_z b\<rparr>"

text \<open>The acceleration summed in lines 180-182: gravity, drag, shake and turbulence.\<close>

definition totalAccel :: "SimParams \<Rightarrow> real \<Rightarrow> kernelVars \<Rightarrow> vec3f" where
  "totalAccel params ph s =
     add3 \<lparr>vec_x = 0, vec_y = - gravity params, vec_z = 0\<rparr>
       (add3 (dragAccel params s)
         (add3 \<lparr>vec_x = shakeAccelX params, vec_y = shakeAccelY params,
                 vec_z = shakeAccelZ params\<rparr>
               (turbAccel params ph s)))"

text \<open>The dome centre \<open>(0, domeCenterY, 0)\<close>, the distance from it, and the unit normal
  pointing outward at a point (lines 192-200).\<close>

definition domeCenter :: "SimParams \<Rightarrow> vec3f" where
  "domeCenter params = \<lparr>vec_x = 0, vec_y = domeCenterY params, vec_z = 0\<rparr>"

definition distFromCenter :: "SimParams \<Rightarrow> vec3f \<Rightarrow> real" where
  "distFromCenter params p = length3 (sub3 p (domeCenter params))"



text \<open>The containment region: within \<open>domeRadius * 0.95\<close> of the dome centre and not below
  the floor.\<close>

definition contained :: "SimParams \<Rightarrow> vec3f \<Rightarrow> bool" where
  "contained params p \<longleftrightarrow>
     distFromCenter params p \<le> domeRadius params * 0.95 \<and> floorY params \<le> vec_y p"


text \<open>
  The working range: magnitudes at most \<open>10^6\<close>. With every real parameter and every
  position, velocity and phase in this range, no intermediate value of the kernel
  reaches the binary32 overflow threshold.
\<close>

definition inWorkingRange :: "real \<Rightarrow> bool" where
  "inWorkingRange v \<longleftrightarrow> \<bar>v\<bar> \<le> 1000000"

definition paramsInRange :: "SimParams \<Rightarrow> bool" where
  "paramsInRange params \<longleftrightarrow>
     inWorkingRange (time params) \<and> inWorkingRange (deltaTime params) \<and>
     inWorkingRange (domeRadius params) \<and> inWorkingRange (domeCenterY params) \<and>
     inWorkingRange (floorY params) \<and> inWorkingRange (gravity params) \<and>
     inWorkingRange (dragCoeff params) \<and> inWorkingRange (turbulence params) \<and>
     inWorkingRange (restitution params) \<and> inWorkingRange (shakeAccelX params) \<and>
     inWorkingRange (shakeAccelY params) \<and> inWorkingRange (shakeAccelZ params)"

definition flakeInRange :: "Snowflake \<Rightarrow> bool" where
  "flakeInRange sf \<longleftrightarrow>
     inWorkingRange (vec_x (position sf)) \<and> inWorkingRange (vec_y (position sf)) \<and>
     inWorkingRange (vec_z (position sf)) \<and>
     inWorkingRange (vec_x (velocity sf)) \<and> inWorkingRange (vec_y (velocity sf)) \<and>
     inWorkingRange (vec_z (velocity sf)) \<and> inWorkingRange (phase sf)"

text \<open>
  Well inside the containment region: within \<open>domeRadius * 0.9\<close> of the dome centre and
  not below the floor. The margin to \<open>domeRadius * 0.95\<close> keeps the comparison of the dome
  stage clear of rounding.
\<close>

definition wellInside :: "SimParams \<Rightarrow> vec3f \<Rightarrow> bool" where
  "wellInside params p \<longleftrightarrow>
     distFromCenter params p \<le> domeRadius params * 0.9 \<and> floorY params \<le> vec_y p"

text \<open>The fields of a snowflake that only the renderer uses agree.\<close>

definition sameRenderFields :: "Snowflake \<Rightarrow> Snowflake \<Rightarrow> bool" where
  "sameRenderFields a b \<longleftrightarrow>
     size_f a = size_f b \<and> phase a = phase b \<and> alpha a = alpha b \<and> rotation a = rotation b"

subsection \<open>Concrete inputs of the witnesses\<close>

text \<open>A unit dome centred at the origin with the floor at \<open>-1/2\<close>, restitution \<open>1/2\<close>, no
  gravity, drag, shake or turbulence, at \<open>time = 0\<close> with \<open>deltaTime = 0\<close>, four snowflakes.\<close>

definition unitParams :: SimParams where
  "unitParams = \<lparr>time = 0, deltaTime = 0, domeRadius = 1, domeCenterY = 0, floorY = - (1/2),
      gravity = 0, dragCoeff = 0, turbulence = 0, restitution = 1/2, shakeAccelX = 0,
      shakeAccelY = 0, shakeAccelZ = 0, snowflakeCount = 4\<rparr>"


text \<open>A snowflake with the given position and velocity.\<close>

definition flakeAt :: "vec3f \<Rightarrow> vec3f \<Rightarrow> Snowflake" where
  "flakeAt p v = \<lparr>position = p, velocity = v, size_f = 1, phase = 0, alpha = 1, rotation = 0\<rparr>"

section \<open>Forces and integration\<close>



text \<open>
  C9. Semi-implicit Euler: the velocity after integration is the old velocity plus the
  total acceleration times \<open>deltaTime\<close>, and the position after integration is the old
  position plus the velocity after integration times \<open>deltaTime\<close>, that is the old
  position plus \<open>(v + a dt) dt\<close>, not \<open>v dt\<close>.
\<close>

theorem integrate_semi_implicit:
  "velOf (integrate params ph s) =
     add3 (velOf s) (scale3 (deltaTime params) (totalAccel params ph s)) \<and>
   posOf (integrate params ph s) =
     add3 (posOf s) (scale3 (deltaTime params) (velOf (integrate params ph s))) \<and>
   posOf (integrate params ph s) =
     add3 (posOf s) (scale3 (deltaTime params)
       (add3 (velOf s) (scale3 (deltaTime params) (totalAccel params ph s))))"
  by (simp add: integrate_def totalAccel_def velOf_def posOf_def add3_def scale3_def Let_def
      algebra_simps)

section \<open>Dome boundary\<close>


lemma dome_dist_eq:
  "sqrt (posX s * posX s + (posY s - domeCenterY params) * (posY s - domeCenterY params)
         + posZ s * posZ s) = distFromCenter params (posOf s)"
  by (simp add: distFromCenter_def length3_def sub3_def domeCenter_def posOf_def)

lemma dome_inside:
  "distFromCenter params (posOf s) \<le> domeRadius params * 0.95 \<Longrightarrow> domeBoundary params s = s"
  by (simp add: domeBoundary_def Let_def dome_dist_eq)












section \<open>Floor\<close>

text \<open>
  C6. When the vertical position that reaches the floor stage is below \<open>floorY\<close>, the
  stage sets it to \<open>floorY\<close>, raises the flag \<open>onFloor\<close>, replaces a negative vertical
  velocity by \<open>abs velY * restitution * 0.5\<close> (leaving a non-negative one), and
  multiplies both horizontal velocity components by 0.9 in either case; the horizontal
  position stays. At or above \<open>floorY\<close> the stage returns the locals as they are, with
  the flag down.
\<close>

theorem floor_stage:
  "(posY s < floorY params \<longrightarrow>
      posY (fst (floorBoundary params s)) = floorY params \<and>
      snd (floorBoundary params s) = 1 \<and>
      velY (fst (floorBoundary params s)) =
        (if velY s < 0 then \<bar>velY s\<bar> * restitution params * 0.5 else velY s) \<and>
      velX (fst (floorBoundary params s)) = velX s * 0.9 \<and>
      velZ (fst (floorBoundary params s)) = velZ s * 0.9 \<and>
      posX (fst (floorBoundary params s)) = posX s \<and>
      posZ (fst (floorBoundary params s)) = posZ s) \<and>
   (floorY params \<le> posY s \<longrightarrow> floorBoundary params s = (s, 0))"
  by (simp add: floorBoundary_def Let_def)

theorem floor_stage_witness:
  "posY \<lparr>posX = 1, posY = - 2, posZ = 3, velX = 10, velY = - 4, velZ = 20\<rparr>
     < floorY \<lparr>time = 0, deltaTime = 0, domeRadius = 1, domeCenterY = 0, floorY = - 1, gravity = 0,
      dragCoeff = 0, turbulence = 0, restitution = 1, shakeAccelX = 0, shakeAccelY = 0,
      shakeAccelZ = 0, snowflakeCount = 1\<rparr> \<and>
   floorBoundary \<lparr>time = 0, deltaTime = 0, domeRadius = 1, domeCenterY = 0, floorY = - 1, gravity = 0,
      dragCoeff = 0, turbulence = 0, restitution = 1, shakeAccelX = 0, shakeAccelY = 0,
      shakeAccelZ = 0, snowflakeCount = 1\<rparr>
     \<lparr>posX = 1, posY = - 2, posZ = 3, velX = 10, velY = - 4, velZ = 20\<rparr>
   = (\<lparr>posX = 1, posY = - 1, posZ = 3, velX = 9, velY = 2, velZ = 18\<rparr>, 1) \<and>
   floorY \<lparr>time = 0, deltaTime = 0, domeRadius = 1, domeCenterY = 0, floorY = - 1, gravity = 0,
      dragCoeff = 0, turbulence = 0, restitution = 1, shakeAccelX = 0, shakeAccelY = 0,
      shakeAccelZ = 0, snowflakeCount = 1\<rparr>
     \<le> posY \<lparr>posX = 1, posY = 0, posZ = 3, velX = 10, velY = - 4, velZ = 20\<rparr> \<and>
   floorBoundary \<lparr>time = 0, deltaTime = 0, domeRadius = 1, domeCenterY = 0, floorY = - 1, gravity = 0,
      dragCoeff = 0, turbulence = 0, restitution = 1, shakeAccelX = 0, shakeAccelY = 0,
      shakeAccelZ = 0, snowflakeCount = 1\<rparr>
     \<lparr>posX = 1, posY = 0, posZ = 3, velX = 10, velY = - 4, velZ = 20\<rparr>
   = (\<lparr>posX = 1, posY = 0, posZ = 3, velX = 10, velY = - 4, velZ = 20\<rparr>, 0)"
  using floor_stage [of "\<lparr>posX = 1, posY = - 2, posZ = 3, velX = 10, velY = - 4, velZ = 20\<rparr>"
      "\<lparr>time = 0, deltaTime = 0, domeRadius = 1, domeCenterY = 0, floorY = - 1, gravity = 0,
      dragCoeff = 0, turbulence = 0, restitution = 1, shakeAccelX = 0, shakeAccelY = 0,
      shakeAccelZ = 0, snowflakeCount = 1\<rparr>"]
    floor_stage [of "\<lparr>posX = 1, posY = 0, posZ = 3, velX = 10, velY = - 4, velZ = 20\<rparr>"
      "\<lparr>time = 0, deltaTime = 0, domeRadius = 1, domeCenterY = 0, floorY = - 1, gravity = 0,
      dragCoeff = 0, turbulence = 0, restitution = 1, shakeAccelX = 0, shakeAccelY = 0,
      shakeAccelZ = 0, snowflakeCount = 1\<rparr>"]
  by (simp add: floorBoundary_def)


section \<open>Noise\<close>

text \<open>
  C5. \<open>noise3DFn\<close> is a function of its argument alone. Its value does not stay in
  \<open>[-1, 1]\<close>, although the comment at its last line says that the result is normalised to
  that range: the wrap \<open>px - f32 (i32 (px / twoPi)) * twoPi\<close> is below \<open>twoPi\<close> only while
  the conversion to \<open>i32\<close> is exact. At \<open>(2^30, 0, 0)\<close> the quotient \<open>px / twoPi\<close> is beyond
  \<open>2^31\<close>, the conversion saturates, and the value of \<open>noise3DFn\<close> exceeds 1000.
\<close>

theorem noise3D_out_of_range:
  "2147483648 \<le> (1073741824 * 127.1 + 0 * 311.7 + 0 * 74.7) / (6.2832 :: real) \<and>
   1000 < noise3DFn \<lparr>vec_x = 1073741824, vec_y = 0, vec_z = 0\<rparr>"
  by (simp add: noise3DFn_def f32_i32_def i32_def Let_def)

section \<open>Respawn\<close>











lemma respawn_off_floor: "respawn params idx (s, 0) = s"
  by (simp add: respawn_def Let_def)



section \<open>One step of one particle\<close>

lemma posOf_loadVars: "posOf (loadVars sf) = position sf"
  by (simp add: posOf_def loadVars_def)

lemma integrate_dt0: "deltaTime params = 0 \<Longrightarrow> integrate params ph s = s"
  by (simp add: integrate_def Let_def)



lemma step_dt0_contained:
  assumes "deltaTime params = 0" and "contained params (position sf)"
  shows "stepSnowflake params idx sf = sf"
proof -
  let ?s = "loadVars sf"
  have d: "distFromCenter params (posOf ?s) \<le> domeRadius params * 0.95"
    and f: "floorY params \<le> posY ?s"
    using assms(2) by (simp_all add: contained_def posOf_loadVars) (simp add: loadVars_def)
  have "stepVars params idx (phase sf) ?s = ?s"
    unfolding stepVars_def
    using f by (simp add: integrate_dt0 [OF assms(1)] dome_inside [OF d] floorBoundary_def
        respawn_off_floor)
  then show ?thesis
    by (simp add: stepSnowflake_def loadVars_def)
qed

lemma distFromCenter_nonneg: "0 \<le> distFromCenter params p"
  by (simp add: distFromCenter_def length3_def)

lemma wellInside_contained: "wellInside params p \<Longrightarrow> contained params p"
proof -
  assume w: "wellInside params p"
  then have "0 \<le> domeRadius params * 0.9"
    using distFromCenter_nonneg [of params p] by (simp add: wellInside_def)
  then have "domeRadius params * 0.9 \<le> domeRadius params * 0.95" by simp
  with w show ?thesis by (simp add: wellInside_def contained_def)
qed

text \<open>
  C3, as the code has it. With \<open>deltaTime = 0\<close>, parameters and snowflake in the working
  range, and the snowflake well inside the containment region (within
  \<open>domeRadius * 0.9\<close> of the dome centre and not below \<open>floorY\<close>), one step leaves the
  snowflake exactly as it is, for every setting of the other parameters. Over the
  reals the same holds up to \<open>domeRadius * 0.95\<close> and without the working range
  (\<open>step_dt0_contained\<close>); the range excludes the overflow that turns the accelerations
  into infinity or NaN, and the margin excludes a rounded distance that crosses the
  threshold of the dome stage.
\<close>

theorem zero_dt_identity:
  assumes "deltaTime params = 0" and "paramsInRange params" and "flakeInRange sf"
    and "wellInside params (position sf)"
  shows "stepSnowflake params idx sf = sf"
  by (rule step_dt0_contained [OF assms(1) wellInside_contained [OF assms(4)]])

theorem zero_dt_identity_witness:
  "deltaTime unitParams = 0 \<and> paramsInRange unitParams \<and>
   flakeInRange (flakeAt \<lparr>vec_x = 0, vec_y = 0, vec_z = 0\<rparr> \<lparr>vec_x = 1, vec_y = 2, vec_z = 3\<rparr>) \<and>
   wellInside unitParams
     (position (flakeAt \<lparr>vec_x = 0, vec_y = 0, vec_z = 0\<rparr> \<lparr>vec_x = 1, vec_y = 2, vec_z = 3\<rparr>)) \<and>
   stepSnowflake unitParams 0 (flakeAt \<lparr>vec_x = 0, vec_y = 0, vec_z = 0\<rparr> \<lparr>vec_x = 1, vec_y = 2, vec_z = 3\<rparr>)
     = flakeAt \<lparr>vec_x = 0, vec_y = 0, vec_z = 0\<rparr> \<lparr>vec_x = 1, vec_y = 2, vec_z = 3\<rparr>"
proof -
  have a: "deltaTime unitParams = 0" by (simp add: unitParams_def)
  have b: "paramsInRange unitParams"
    by (simp add: paramsInRange_def inWorkingRange_def unitParams_def)
  have c: "flakeInRange (flakeAt \<lparr>vec_x = 0, vec_y = 0, vec_z = 0\<rparr> \<lparr>vec_x = 1, vec_y = 2, vec_z = 3\<rparr>)"
    by (simp add: flakeInRange_def inWorkingRange_def flakeAt_def)
  have d: "wellInside unitParams
     (position (flakeAt \<lparr>vec_x = 0, vec_y = 0, vec_z = 0\<rparr> \<lparr>vec_x = 1, vec_y = 2, vec_z = 3\<rparr>))"
    by (simp add: wellInside_def unitParams_def flakeAt_def distFromCenter_def length3_def
        sub3_def domeCenter_def)
  show ?thesis using a b c d zero_dt_identity [OF a b c d, of 0] by simp
qed

text \<open>
  Outside the region the boundary stages act even with \<open>deltaTime = 0\<close>: on the unit
  dome a resting snowflake at \<open>(1, 0, 0)\<close> is moved to \<open>(0.95, 0, 0)\<close>.
\<close>

theorem zero_dt_counterexample:
  "deltaTime unitParams = 0 \<and>
   position (stepSnowflake unitParams 0
      (flakeAt \<lparr>vec_x = 1, vec_y = 0, vec_z = 0\<rparr> \<lparr>vec_x = 0, vec_y = 0, vec_z = 0\<rparr>))
   = \<lparr>vec_x = 0.95, vec_y = 0, vec_z = 0\<rparr> \<and>
   position (stepSnowflake unitParams 0
      (flakeAt \<lparr>vec_x = 1, vec_y = 0, vec_z = 0\<rparr> \<lparr>vec_x = 0, vec_y = 0, vec_z = 0\<rparr>))
   \<noteq> position (flakeAt \<lparr>vec_x = 1, vec_y = 0, vec_z = 0\<rparr> \<lparr>vec_x = 0, vec_y = 0, vec_z = 0\<rparr>)"
  by (simp add: stepSnowflake_def stepVars_def loadVars_def flakeAt_def unitParams_def
      integrate_def domeBoundary_def floorBoundary_def respawn_def Let_def)

section \<open>The invocation, the dispatch and the frames\<close>

lemma upd_len: "length (updateSnowflakesFn params idx arr) = length arr"
  by (simp add: updateSnowflakesFn_def)

lemma upd_nth:
  "j < length arr \<Longrightarrow>
   updateSnowflakesFn params idx arr ! j =
     (if idx < snowflakeCount params \<and> unat idx = j
      then stepSnowflake params idx (arr ! j) else arr ! j)"
  by (auto simp: updateSnowflakesFn_def nth_list_update)

lemma dispatch_len: "length (dispatch params gids arr) = length arr"
  unfolding dispatch_def
  by (induction gids arbitrary: arr) (simp_all add: upd_len)

lemma dispatch_nth:
  "distinct gids \<Longrightarrow> j < length arr \<Longrightarrow>
   dispatch params gids arr ! j =
     (if \<exists>idx \<in> set gids. idx < snowflakeCount params \<and> unat idx = j
      then stepSnowflake params (word_of_nat j) (arr ! j) else arr ! j)"
  unfolding dispatch_def
proof (induction gids arbitrary: arr)
  case Nil
  then show ?case by simp
next
  case (Cons g gs)
  let ?arr' = "updateSnowflakesFn params g arr"
  have len: "j < length ?arr'" using Cons.prems by (simp add: upd_len)
  have dist: "distinct gs" and notin: "g \<notin> set gs" using Cons.prems by simp_all
  have IH: "foldl (\<lambda>a idx. updateSnowflakesFn params idx a) ?arr' gs ! j =
     (if \<exists>idx \<in> set gs. idx < snowflakeCount params \<and> unat idx = j
      then stepSnowflake params (word_of_nat j) (?arr' ! j) else ?arr' ! j)"
    using Cons.IH [OF dist len] .
  show ?case
  proof (cases "\<exists>idx \<in> set gs. idx < snowflakeCount params \<and> unat idx = j")
    case True
    then obtain idx where idx: "idx \<in> set gs" "unat idx = j" by blast
    have "unat g \<noteq> j"
    proof
      assume "unat g = j"
      with idx have "unat g = unat idx" by simp
      then have "g = idx" by (simp add: word_unat_eq_iff)
      with idx notin show False by simp
    qed
    then have "?arr' ! j = arr ! j" using Cons.prems by (simp add: upd_nth)
    with True IH show ?thesis by auto
  next
    case False
    have "foldl (\<lambda>a idx. updateSnowflakesFn params idx a) ?arr' gs ! j = ?arr' ! j"
      by (simp only: IH if_not_P [OF False])
    moreover have "?arr' ! j = (if g < snowflakeCount params \<and> unat g = j
      then stepSnowflake params g (arr ! j) else arr ! j)"
      using Cons.prems by (simp add: upd_nth)
    ultimately show ?thesis using False by auto
  qed
qed



lemma sameRenderFields_refl: "sameRenderFields a a"
  by (simp add: sameRenderFields_def)

lemma step_sameRenderFields: "sameRenderFields (stepSnowflake params idx sf) sf"
  by (simp add: sameRenderFields_def stepSnowflake_def Let_def)

lemma sameRenderFields_trans:
  "sameRenderFields a b \<Longrightarrow> sameRenderFields b c \<Longrightarrow> sameRenderFields a c"
  by (simp add: sameRenderFields_def)

lemma upd_frame:
  assumes "j < length arr"
  shows "sameRenderFields (updateSnowflakesFn params idx arr ! j) (arr ! j)"
    and "unat (snowflakeCount params) \<le> j \<Longrightarrow> updateSnowflakesFn params idx arr ! j = arr ! j"
    and "j \<noteq> unat idx \<Longrightarrow> updateSnowflakesFn params idx arr ! j = arr ! j"
proof -
  show "sameRenderFields (updateSnowflakesFn params idx arr ! j) (arr ! j)"
    using assms by (simp add: upd_nth sameRenderFields_refl step_sameRenderFields)
  show "updateSnowflakesFn params idx arr ! j = arr ! j" if "unat (snowflakeCount params) \<le> j"
  proof (cases "idx < snowflakeCount params \<and> unat idx = j")
    case True
    then have "unat idx < unat (snowflakeCount params)" by (simp add: word_less_nat_alt)
    with True that show ?thesis by simp
  next
    case False
    then show ?thesis using assms by (auto simp: upd_nth)
  qed
  show "updateSnowflakesFn params idx arr ! j = arr ! j" if "j \<noteq> unat idx"
    using assms that by (auto simp: upd_nth)
qed

lemma dispatch_frame:
  "j < length arr \<Longrightarrow>
   sameRenderFields (dispatch params gids arr ! j) (arr ! j) \<and>
   (unat (snowflakeCount params) \<le> j \<longrightarrow> dispatch params gids arr ! j = arr ! j)"
  unfolding dispatch_def
proof (induction gids arbitrary: arr)
  case Nil
  then show ?case by (simp add: sameRenderFields_refl)
next
  case (Cons g gs)
  let ?arr' = "updateSnowflakesFn params g arr"
  have len: "j < length ?arr'" using Cons.prems by (simp add: upd_len)
  note IH = Cons.IH [OF len]
  have U1: "sameRenderFields (?arr' ! j) (arr ! j)"
    by (rule upd_frame(1) [OF Cons.prems])
  have U2: "?arr' ! j = arr ! j" if "unat (snowflakeCount params) \<le> j"
    by (rule upd_frame(2) [OF Cons.prems that])
  have "sameRenderFields (foldl (\<lambda>a idx. updateSnowflakesFn params idx a) ?arr' gs ! j) (arr ! j)"
    using IH U1 by (blast intro: sameRenderFields_trans)
  moreover have "foldl (\<lambda>a idx. updateSnowflakesFn params idx a) ?arr' gs ! j = arr ! j"
    if "unat (snowflakeCount params) \<le> j"
    using IH U2 [OF that] that by simp
  ultimately show ?case by simp
qed

text \<open>
  C10. An invocation whose index is at least \<open>snowflakeCount\<close> returns the array as it
  is. Any invocation keeps the length of the array, leaves every element other than its
  own untouched, and leaves \<open>size\<close>, \<open>phase\<close>, \<open>alpha\<close> and \<open>rotation\<close> of every element as they
  were. A whole dispatch, in any order and with any invocation ids, does the same and
  leaves every element at a position from \<open>snowflakeCount\<close> on untouched.
\<close>

theorem physics_write_set:
  "(snowflakeCount params \<le> idx \<longrightarrow> updateSnowflakesFn params idx arr = arr) \<and>
   length (updateSnowflakesFn params idx arr) = length arr \<and>
   (\<forall>j<length arr.
      (j \<noteq> unat idx \<longrightarrow> updateSnowflakesFn params idx arr ! j = arr ! j) \<and>
      sameRenderFields (updateSnowflakesFn params idx arr ! j) (arr ! j)) \<and>
   length (dispatch params gids arr) = length arr \<and>
   (\<forall>j<length arr.
      (unat (snowflakeCount params) \<le> j \<longrightarrow> dispatch params gids arr ! j = arr ! j) \<and>
      sameRenderFields (dispatch params gids arr ! j) (arr ! j))"
proof (intro conjI allI impI)
  show "updateSnowflakesFn params idx arr = arr" if "snowflakeCount params \<le> idx"
    using that by (simp add: updateSnowflakesFn_def)
  show "length (updateSnowflakesFn params idx arr) = length arr"
    by (rule upd_len)
  show "updateSnowflakesFn params idx arr ! j = arr ! j" if "j < length arr" "j \<noteq> unat idx" for j
    by (rule upd_frame(3) [OF that])
  show "sameRenderFields (updateSnowflakesFn params idx arr ! j) (arr ! j)" if "j < length arr" for j
    by (rule upd_frame(1) [OF that])
  show "length (dispatch params gids arr) = length arr"
    by (rule dispatch_len)
  show "dispatch params gids arr ! j = arr ! j"
    if "j < length arr" "unat (snowflakeCount params) \<le> j" for j
    using dispatch_frame [OF that(1)] that(2) by simp
  show "sameRenderFields (dispatch params gids arr ! j) (arr ! j)" if "j < length arr" for j
    using dispatch_frame [OF that] by simp
qed

theorem physics_write_set_witness:
  "snowflakeCount unitParams \<le> 4 \<and>
   updateSnowflakesFn unitParams 4
     [flakeAt \<lparr>vec_x = 5, vec_y = 0, vec_z = 0\<rparr> \<lparr>vec_x = 1, vec_y = 0, vec_z = 0\<rparr>]
     = [flakeAt \<lparr>vec_x = 5, vec_y = 0, vec_z = 0\<rparr> \<lparr>vec_x = 1, vec_y = 0, vec_z = 0\<rparr>] \<and>
   (0::nat) < length [flakeAt \<lparr>vec_x = 5, vec_y = 0, vec_z = 0\<rparr> \<lparr>vec_x = 1, vec_y = 0, vec_z = 0\<rparr>] \<and>
   sameRenderFields
     (updateSnowflakesFn unitParams 0
        [flakeAt \<lparr>vec_x = 5, vec_y = 0, vec_z = 0\<rparr> \<lparr>vec_x = 1, vec_y = 0, vec_z = 0\<rparr>] ! 0)
     (flakeAt \<lparr>vec_x = 5, vec_y = 0, vec_z = 0\<rparr> \<lparr>vec_x = 1, vec_y = 0, vec_z = 0\<rparr>) \<and>
   sameRenderFields
     (dispatch unitParams [0, 1]
        [flakeAt \<lparr>vec_x = 5, vec_y = 0, vec_z = 0\<rparr> \<lparr>vec_x = 1, vec_y = 0, vec_z = 0\<rparr>] ! 0)
     (flakeAt \<lparr>vec_x = 5, vec_y = 0, vec_z = 0\<rparr> \<lparr>vec_x = 1, vec_y = 0, vec_z = 0\<rparr>)"
  using physics_write_set [where params = unitParams and idx = 4 and gids = "[0, 1]"
      and arr = "[flakeAt \<lparr>vec_x = 5, vec_y = 0, vec_z = 0\<rparr> \<lparr>vec_x = 1, vec_y = 0, vec_z = 0\<rparr>]"]
    physics_write_set [where params = unitParams and idx = 0 and gids = "[0, 1]"
      and arr = "[flakeAt \<lparr>vec_x = 5, vec_y = 0, vec_z = 0\<rparr> \<lparr>vec_x = 1, vec_y = 0, vec_z = 0\<rparr>]"]
  by (simp add: unitParams_def)

text \<open>
  C4. In a dispatch that runs every invocation id once, in any order, the result for
  particle \<open>i\<close> below \<open>snowflakeCount\<close> is \<open>stepSnowflake params i\<close> of its own previous
  record: it is the same for any other order and any other contents of the rest of
  the array, and two dispatches over the same ids in different orders return the same
  array.
\<close>

theorem per_particle_map:
  assumes "distinct gids" and "i \<in> set gids" and "i < snowflakeCount params"
    and "unat i < length arr"
  shows "dispatch params gids arr ! unat i = stepSnowflake params i (arr ! unat i) \<and>
         (distinct gids' \<and> i \<in> set gids' \<and> unat i < length arr' \<and>
          arr' ! unat i = arr ! unat i \<longrightarrow>
            dispatch params gids' arr' ! unat i = dispatch params gids arr ! unat i) \<and>
         (distinct gids' \<and> set gids' = set gids \<longrightarrow>
            dispatch params gids' arr = dispatch params gids arr)"
proof (intro conjI impI)
  have one: "dispatch params g a ! unat i = stepSnowflake params i (a ! unat i)"
    if "distinct g" "i \<in> set g" "unat i < length a" for g a
  proof -
    have "\<exists>idx \<in> set g. idx < snowflakeCount params \<and> unat idx = unat i"
      using that(2) assms(3) by blast
    then show ?thesis
      using dispatch_nth [OF that(1) that(3), of params] by simp
  qed
  show "dispatch params gids arr ! unat i = stepSnowflake params i (arr ! unat i)"
    by (rule one [OF assms(1,2,4)])
  show "dispatch params gids' arr' ! unat i = dispatch params gids arr ! unat i"
    if "distinct gids' \<and> i \<in> set gids' \<and> unat i < length arr' \<and> arr' ! unat i = arr ! unat i"
    using that one [of gids' arr'] one [OF assms(1,2,4)] by simp
  show "dispatch params gids' arr = dispatch params gids arr"
    if h: "distinct gids' \<and> set gids' = set gids"
  proof (rule nth_equalityI)
    show "length (dispatch params gids' arr) = length (dispatch params gids arr)"
      by (simp add: dispatch_len)
    fix j assume "j < length (dispatch params gids' arr)"
    then have j: "j < length arr" by (simp add: dispatch_len)
    show "dispatch params gids' arr ! j = dispatch params gids arr ! j"
      using h by (simp add: dispatch_nth [OF _ j] assms(1))
  qed
qed

theorem per_particle_map_witness:
  "distinct [1, 0 :: 32 word] \<and> (0::32 word) \<in> set [1, 0] \<and> (0::32 word) < snowflakeCount unitParams \<and>
   unat (0::32 word) < length [flakeAt \<lparr>vec_x = 5, vec_y = 0, vec_z = 0\<rparr> \<lparr>vec_x = 1, vec_y = 0, vec_z = 0\<rparr>,
        flakeAt \<lparr>vec_x = 0, vec_y = 0, vec_z = 0\<rparr> \<lparr>vec_x = 0, vec_y = 1, vec_z = 0\<rparr>] \<and>
   dispatch unitParams [1, 0]
       [flakeAt \<lparr>vec_x = 5, vec_y = 0, vec_z = 0\<rparr> \<lparr>vec_x = 1, vec_y = 0, vec_z = 0\<rparr>,
        flakeAt \<lparr>vec_x = 0, vec_y = 0, vec_z = 0\<rparr> \<lparr>vec_x = 0, vec_y = 1, vec_z = 0\<rparr>] ! unat (0::32 word)
     = stepSnowflake unitParams 0
        (flakeAt \<lparr>vec_x = 5, vec_y = 0, vec_z = 0\<rparr> \<lparr>vec_x = 1, vec_y = 0, vec_z = 0\<rparr>) \<and>
   dispatch unitParams [0, 1]
       [flakeAt \<lparr>vec_x = 5, vec_y = 0, vec_z = 0\<rparr> \<lparr>vec_x = 1, vec_y = 0, vec_z = 0\<rparr>,
        flakeAt \<lparr>vec_x = 0, vec_y = 0, vec_z = 0\<rparr> \<lparr>vec_x = 0, vec_y = 1, vec_z = 0\<rparr>]
     = dispatch unitParams [1, 0]
       [flakeAt \<lparr>vec_x = 5, vec_y = 0, vec_z = 0\<rparr> \<lparr>vec_x = 1, vec_y = 0, vec_z = 0\<rparr>,
        flakeAt \<lparr>vec_x = 0, vec_y = 0, vec_z = 0\<rparr> \<lparr>vec_x = 0, vec_y = 1, vec_z = 0\<rparr>]"
proof -
  have a: "distinct [1, 0 :: 32 word]" by simp
  have b: "(0::32 word) \<in> set [1, 0]" by simp
  have c: "(0::32 word) < snowflakeCount unitParams" by (simp add: unitParams_def)
  have d: "unat (0::32 word) < length [flakeAt \<lparr>vec_x = 5, vec_y = 0, vec_z = 0\<rparr> \<lparr>vec_x = 1, vec_y = 0, vec_z = 0\<rparr>,
        flakeAt \<lparr>vec_x = 0, vec_y = 0, vec_z = 0\<rparr> \<lparr>vec_x = 0, vec_y = 1, vec_z = 0\<rparr>]" by simp
  have e: "distinct [0, 1 :: 32 word] \<and> set [0, 1 :: 32 word] = set [1, 0]" by auto
  show ?thesis
    using a b c d e per_particle_map [OF a b c d, where gids' = "[0, 1]"]
    by simp
qed




end
